theory Spec2Isabelle
  imports Main
begin

section \<open>Values, documents and index metadata\<close>

text \<open>
  Documents stored in a collection are Python dicts: association lists from field names
  to values, in insertion order. \<open>JDec m e\<close> is the decimal literal \<open>m / 10^e\<close>
  (the source writes \<open>0.1\<close>, \<open>10.2896\<close>), \<open>JDate\<close> a timestamp.
\<close>

datatype json =
    JNull
  | JBool bool
  | JInt int
  | JDec int nat
  | JStr string
  | JDate int
  | JList "json list"
  | JObj "(string \<times> json) list"

type_synonym doc = "(string \<times> json) list"

text \<open>
  Index metadata: the \<open>key\<close> entry is the ordered list of (field, direction) pairs;
  every other entry of the dict (\<open>unique\<close>, \<open>sparse\<close>, and for a live index also
  \<open>v\<close> and \<open>ns\<close>) carries a scalar value. The same shape serves the declared index
  dicts of \<open>collection_schemas\<close> and the values of \<open>index_information()\<close>.
\<close>

datatype val = VBool bool | VInt int | VStr string

type_synonym dict = "(string \<times> val) list"

type_synonym index_keys = "(string \<times> int) list"

abbreviation ASCENDING :: int where "ASCENDING \<equiv> 1"
abbreviation DESCENDING :: int where "DESCENDING \<equiv> - 1"

record index_doc =
  key :: index_keys
  others :: dict

text \<open>Python's \<open>==\<close> on scalars: \<open>True == 1\<close> and \<open>False == 0\<close> hold.\<close>

fun py_eq :: "val \<Rightarrow> val \<Rightarrow> bool" where
  "py_eq (VBool a) (VBool b) = (a = b)"
| "py_eq (VBool a) (VInt i) = ((if a then 1 else 0) = i)"
| "py_eq (VInt i) (VBool a) = (i = (if a then 1 else 0))"
| "py_eq (VInt i) (VInt j) = (i = j)"
| "py_eq (VStr s) (VStr t) = (s = t)"
| "py_eq _ _ = False"

text \<open>Python's \<open>==\<close> on dicts: the same keys, and equal values under each key.\<close>

definition dict_eq :: "dict \<Rightarrow> dict \<Rightarrow> bool" where
  "dict_eq a b =
     (set (map fst a) = set (map fst b) \<and>
      list_all (\<lambda>k. case (map_of a k, map_of b k) of
                       (Some u, Some v) \<Rightarrow> py_eq u v
                     | _ \<Rightarrow> False) (map fst a))"

section \<open>The document store\<close>

text \<open>
  The store is the MongoDB server behind pymongo. Its behaviour is not part of the
  repository; it is modelled here as far as \<open>initialize_database\<close> and the user
  functions observe it: collections are listed in creation order, every collection
  carries an ordered dict of indexes and a list of documents.
\<close>

record collection =
  coll_validator :: json
  coll_indexes :: "(string \<times> index_doc) list"
  coll_docs :: "doc list"

record store =
  names :: "string list"
  colls :: "string \<Rightarrow> collection"

definition fresh_collection :: collection where
  "fresh_collection = \<lparr>coll_validator = JObj [], coll_indexes = [], coll_docs = []\<rparr>"

definition empty_store :: store where
  "empty_store = \<lparr>names = [], colls = (\<lambda>_. fresh_collection)\<rparr>"

section \<open>Exceptions, calls and the world\<close>

datatype error =
    ConnectionFailure
  | ServerSelectionTimeoutError
  | OperationFailure
  | CollectionInvalid
  | DuplicateKeyError
  | RuntimeError
  | ValueError
  | KeyError
  | AttributeError

text \<open>
  Every call that leaves the process, in the order it is made. \<open>AdminPing\<close> is
  \<open>mongo_client.admin.command('ping')\<close>, \<open>DbPing\<close> the ping inside \<open>get_db\<close>,
  \<open>Sleep\<close> is \<open>time.sleep\<close>; \<open>FindOne c f v\<close> is \<open>db.c.find_one({f: v})\<close>.
\<close>

datatype call =
    AdminPing
  | Sleep nat
  | DbPing
  | ListCollectionNames
  | CreateCollection string json
  | IndexInformation string
  | CreateIndex string index_keys dict
  | CountDocuments string
  | InsertOne string doc
  | InsertMany string "doc list"
  | Find string
  | FindOne string string json

datatype level = INFO | ERROR

text \<open>One constructor per \<open>logger\<close> call of the source, with the values it formats.\<close>

datatype log_msg =
    ConnectedToDatabase
  | ErrorConnectingToDatabase error
  | ConnectionEstablished nat nat
  | FailedToInitializeAttempt nat nat error
  | MongoDBDatabase
  | CollectionCreated string
  | IndexAlreadyExists string index_keys dict
  | IndexCreated string index_keys dict
  | CoursesInitialized
  | TaxRatesInitialized
  | PaymentLocationsInitialized
  | DatabaseInitializationFailed error
  | UserCreated string
  | UserCreationDuplicate error
  | UserCreationError error
  | UserFetchError string error
  | ToolUsageLogged string "string option"
  | ToolUsageLogError error

text \<open>
  The world threads the store, the trace of calls with the outcome of each
  (\<open>None\<close>: it returned, \<open>Some e\<close>: it raised \<open>e\<close>), the log, the application's
  \<open>config['COURSES']\<close>, and the environment's faults: \<open>fails n = Some e\<close> makes the
  call at position \<open>n\<close> of the trace raise \<open>e\<close> before it reaches the store
  (a dropped connection, a denied permission).
\<close>

record world =
  db :: store
  calls :: "(call \<times> error option) list"
  logs :: "(level \<times> log_msg) list"
  config_COURSES :: "doc list"
  fails :: "nat \<Rightarrow> error option"

type_synonym 'a action = "world \<Rightarrow> (error + 'a) \<times> world"

definition return :: "'a \<Rightarrow> 'a action" where
  "return a w = (Inr a, w)"

definition raise :: "error \<Rightarrow> 'a action" where
  "raise e w = (Inl e, w)"

definition bind :: "'a action \<Rightarrow> ('a \<Rightarrow> 'b action) \<Rightarrow> 'b action" where
  "bind m f w = (case m w of (Inl e, w1) \<Rightarrow> (Inl e, w1) | (Inr a, w1) \<Rightarrow> f a w1)"

text \<open>\<open>try: m except Exception as e: h e\<close>.\<close>

definition on_exception :: "'a action \<Rightarrow> (error \<Rightarrow> 'a action) \<Rightarrow> 'a action" where
  "on_exception m h w = (case m w of (Inl e, w1) \<Rightarrow> h e w1 | (Inr a, w1) \<Rightarrow> (Inr a, w1))"

definition logger :: "level \<Rightarrow> log_msg \<Rightarrow> unit action" where
  "logger l m w = (Inr (), w\<lparr>logs := logs w @ [(l, m)]\<rparr>)"

definition sleep :: "nat \<Rightarrow> unit action" where
  "sleep n w = (Inr (), w\<lparr>calls := calls w @ [(Sleep n, None)]\<rparr>)"

text \<open>
  A call to the server: it is recorded with its outcome; an injected fault raises
  without touching the store, otherwise the store decides.
\<close>

definition perform :: "call \<Rightarrow> (store \<Rightarrow> (error + 'a) \<times> store) \<Rightarrow> 'a action" where
  "perform c f w =
     (case fails w (length (calls w)) of
        Some e \<Rightarrow> (Inl e, w\<lparr>calls := calls w @ [(c, Some e)]\<rparr>)
      | None \<Rightarrow>
          (case f (db w) of
             (Inl e, s) \<Rightarrow> (Inl e, w\<lparr>db := s, calls := calls w @ [(c, Some e)]\<rparr>)
           | (Inr a, s) \<Rightarrow> (Inr a, w\<lparr>db := s, calls := calls w @ [(c, None)]\<rparr>)))"

definition admin_ping :: "unit action" where
  "admin_ping = perform AdminPing (\<lambda>s. (Inr (), s))"

section \<open>initialize_database: the connection retry loop\<close>

definition max_retries :: nat where "max_retries = 3"
definition retry_delay :: nat where "retry_delay = 1"

text \<open>\<open>except (ConnectionFailure, ServerSelectionTimeoutError)\<close>.\<close>

definition is_connection_failure :: "error \<Rightarrow> bool" where
  "is_connection_failure e = (e = ConnectionFailure \<or> e = ServerSelectionTimeoutError)"

text \<open>
  \<open>for attempt in range(max_retries)\<close>: the list holds the attempts still to run.
  A ping that returns leaves the loop (\<open>break\<close>); a connection failure is logged, the
  last attempt raises \<open>RuntimeError\<close>, any other sleeps and goes on; an exception of
  another class leaves the function at once.
\<close>

fun retry_loop :: "nat list \<Rightarrow> unit action" where
  "retry_loop [] w = (Inr (), w)"
| "retry_loop (attempt # rest) w =
     (case admin_ping w of
        (Inr _, w1) \<Rightarrow> logger INFO (ConnectionEstablished (attempt + 1) max_retries) w1
      | (Inl e, w1) \<Rightarrow>
          if is_connection_failure e then
            (case logger ERROR (FailedToInitializeAttempt (attempt + 1) max_retries e) w1 of
               (_, w2) \<Rightarrow>
                 if attempt = max_retries - 1 then (Inl RuntimeError, w2)
                 else (case sleep retry_delay w2 of (_, w3) \<Rightarrow> retry_loop rest w3))
          else (Inl e, w1))"

section \<open>Store operations\<close>

text \<open>
  A collection that is not listed has no indexes and no documents; a write to it
  creates it, as the server does.
\<close>

definition live :: "store \<Rightarrow> string \<Rightarrow> collection" where
  "live s name = (if name \<in> set (names s) then colls s name else fresh_collection)"

definition put :: "string \<Rightarrow> collection \<Rightarrow> store \<Rightarrow> store" where
  "put name c s =
     s\<lparr>names := (if name \<in> set (names s) then names s else names s @ [name]),
       colls := (colls s)(name := c)\<rparr>"

definition store_create_collection :: "string \<Rightarrow> json \<Rightarrow> store \<Rightarrow> (error + unit) \<times> store" where
  "store_create_collection name v s =
     (if name \<in> set (names s) then (Inl CollectionInvalid, s)
      else (Inr (), put name (fresh_collection\<lparr>coll_validator := v\<rparr>) s))"

text \<open>
  The options of a live index as the server and the source both read them: its
  metadata without the \<open>key\<close>, \<open>v\<close> and \<open>ns\<close> entries.
\<close>

definition live_options :: "dict \<Rightarrow> dict" where
  "live_options d = filter (\<lambda>(k, v). k \<notin> set [''key'', ''v'', ''ns'']) d"

definition direction_name :: "int \<Rightarrow> string" where
  "direction_name d = (if d = DESCENDING then ''-1'' else ''1'')"

fun index_name :: "index_keys \<Rightarrow> string" where
  "index_name [] = []"
| "index_name [(f, d)] = f @ ''_'' @ direction_name d"
| "index_name ((f, d) # rest) = f @ ''_'' @ direction_name d @ ''_'' @ index_name rest"

text \<open>
  \<open>create_index\<close> on the server: an index with the same key and the same options is
  already there (nothing to do); one with the same key and other options, or another
  index under the generated name, is a conflict; otherwise the index is appended.
\<close>

definition store_create_index ::
  "string \<Rightarrow> index_keys \<Rightarrow> dict \<Rightarrow> store \<Rightarrow> (error + unit) \<times> store" where
  "store_create_index name keys options s =
     (let c = live s name;
          same = filter (\<lambda>(n, i). key i = keys) (coll_indexes c)
      in if same \<noteq> [] then
           (if list_all (\<lambda>(n, i). dict_eq (live_options (others i)) options) same
            then (Inr (), s) else (Inl OperationFailure, s))
         else if index_name keys \<in> set (map fst (coll_indexes c)) then (Inl OperationFailure, s)
         else (Inr (), put name
                 (c\<lparr>coll_indexes := coll_indexes c @
                    [(index_name keys, \<lparr>key = keys, others = (''v'', VInt 2) # options\<rparr>)]\<rparr>) s))"

text \<open>
  Unique indexes and the \<open>_id\<close> field reject a duplicate. A missing field counts as
  null; a sparse index leaves out the documents that have none of its fields.
\<close>

definition field :: "doc \<Rightarrow> string \<Rightarrow> json" where
  "field d f = (case map_of d f of None \<Rightarrow> JNull | Some v \<Rightarrow> v)"

definition truthy_option :: "index_doc \<Rightarrow> string \<Rightarrow> bool" where
  "truthy_option i k = (case map_of (others i) k of None \<Rightarrow> False | Some v \<Rightarrow> py_eq v (VBool True))"

definition indexed_by :: "index_doc \<Rightarrow> doc \<Rightarrow> bool" where
  "indexed_by i d = (\<not> truthy_option i ''sparse'' \<or> list_ex (\<lambda>(f, dir). map_of d f \<noteq> None) (key i))"

definition duplicates :: "collection \<Rightarrow> doc \<Rightarrow> bool" where
  "duplicates c d =
     (list_ex (\<lambda>d'. map_of d ''_id'' \<noteq> None \<and> map_of d' ''_id'' = map_of d ''_id'') (coll_docs c) \<or>
      list_ex (\<lambda>(n, i). truthy_option i ''unique'' \<and> indexed_by i d \<and>
                 list_ex (\<lambda>d'. indexed_by i d' \<and>
                            map (\<lambda>(f, dir). field d' f) (key i) = map (\<lambda>(f, dir). field d f) (key i))
                         (coll_docs c))
              (coll_indexes c))"

definition store_insert_one :: "string \<Rightarrow> doc \<Rightarrow> store \<Rightarrow> (error + unit) \<times> store" where
  "store_insert_one name d s =
     (let c = live s name
      in if duplicates c d then (Inl DuplicateKeyError, s)
         else (Inr (), put name (c\<lparr>coll_docs := coll_docs c @ [d]\<rparr>) s))"

text \<open>An ordered bulk insert stops at the first rejected document and keeps the earlier ones.\<close>

fun store_insert_many :: "string \<Rightarrow> doc list \<Rightarrow> store \<Rightarrow> (error + unit) \<times> store" where
  "store_insert_many name [] s = (Inr (), s)"
| "store_insert_many name (d # ds) s =
     (case store_insert_one name d s of
        (Inl e, s1) \<Rightarrow> (Inl e, s1)
      | (Inr u, s1) \<Rightarrow> store_insert_many name ds s1)"

section \<open>The driver calls the source makes\<close>

definition list_collection_names :: "string list action" where
  "list_collection_names = perform ListCollectionNames (\<lambda>s. (Inr (names s), s))"

definition create_collection :: "string \<Rightarrow> json \<Rightarrow> unit action" where
  "create_collection name v = perform (CreateCollection name v) (store_create_collection name v)"

definition index_information :: "string \<Rightarrow> (string \<times> index_doc) list action" where
  "index_information name =
     perform (IndexInformation name) (\<lambda>s. (Inr (coll_indexes (live s name)), s))"

definition create_index :: "string \<Rightarrow> index_keys \<Rightarrow> dict \<Rightarrow> unit action" where
  "create_index name keys options =
     perform (CreateIndex name keys options) (store_create_index name keys options)"

definition count_documents :: "string \<Rightarrow> nat action" where
  "count_documents name =
     perform (CountDocuments name) (\<lambda>s. (Inr (length (coll_docs (live s name))), s))"

definition insert_one :: "string \<Rightarrow> doc \<Rightarrow> unit action" where
  "insert_one name d = perform (InsertOne name d) (store_insert_one name d)"

definition insert_many :: "string \<Rightarrow> doc list \<Rightarrow> unit action" where
  "insert_many name ds = perform (InsertMany name ds) (store_insert_many name ds)"

definition find_all :: "string \<Rightarrow> doc list action" where
  "find_all name = perform (Find name) (\<lambda>s. (Inr (coll_docs (live s name)), s))"

definition find_one :: "string \<Rightarrow> string \<Rightarrow> json \<Rightarrow> doc option action" where
  "find_one name f v =
     perform (FindOne name f v)
       (\<lambda>s. (Inr (find (\<lambda>d. map_of d f = Some v) (coll_docs (live s name))), s))"

section \<open>get_db\<close>

text \<open>
  \<open>get_db\<close> opens a client, pings the database and returns the handle; any exception is
  logged and raised again. The connection URI is taken to be well formed.
\<close>

definition get_db :: "unit action" where
  "get_db =
     on_exception
       (bind (perform DbPing (\<lambda>s. (Inr (), s))) (\<lambda>_. logger INFO ConnectedToDatabase))
       (\<lambda>e. bind (logger ERROR (ErrorConnectingToDatabase e)) (\<lambda>_. raise e))"

section \<open>The declared schema\<close>

text \<open>Shorthands for the shapes the validators of \<open>collection_schemas\<close> repeat.\<close>

definition bson :: "string \<Rightarrow> json" where
  "bson t = JObj [(''bsonType'', JStr t)]"

definition bson_or_null :: "string \<Rightarrow> json" where
  "bson_or_null t = JObj [(''bsonType'', JList [JStr t, JStr ''null''])]"

definition bson_min0 :: "string \<Rightarrow> json" where
  "bson_min0 t = JObj [(''bsonType'', JStr t), (''minimum'', JInt 0)]"

definition enum :: "string list \<Rightarrow> json" where
  "enum vs = JObj [(''enum'', JList (map JStr vs))]"

definition json_schema :: "string list \<Rightarrow> (string \<times> json) list \<Rightarrow> json" where
  "json_schema required properties =
     JObj [(''$jsonSchema'', JObj [(''bsonType'', JStr ''object''),
                                  (''required'', JList (map JStr required)),
                                  (''properties'', JObj properties)])]"

definition details :: "(string \<times> json) list \<Rightarrow> json" where
  "details properties =
     JObj [(''bsonType'', JList [JStr ''object'', JStr ''null'']), (''properties'', JObj properties)]"

definition users_validator :: json where
  "users_validator = json_schema [''_id'', ''email'', ''password'', ''role'']
     [(''_id'', bson ''string''),
      (''email'', JObj [(''bsonType'', JStr ''string''),
                        (''pattern'', JStr (''^[a-zA-Z0-9_.+-]+@[a-zA-Z0-9-]+'' @ [CHR 0x5C] @
                                           ''.[a-zA-Z0-9-.]+$''))]),
      (''password'', bson ''string''),
      (''role'', enum [''personal'', ''trader'', ''agent'', ''admin'']),
      (''coin_balance'', bson_min0 ''int''),
      (''language'', enum [''en'', ''ha'']),
      (''created_at'', bson ''date''),
      (''display_name'', bson_or_null ''string''),
      (''is_admin'', bson ''bool''),
      (''setup_complete'', bson ''bool''),
      (''reset_token'', bson_or_null ''string''),
      (''reset_token_expiry'', bson_or_null ''date''),
      (''otp'', bson_or_null ''string''),
      (''otp_expiry'', bson_or_null ''date''),
      (''business_details'', details
         [(''name'', bson ''string''), (''address'', bson ''string''),
          (''industry'', bson ''string''), (''products_services'', bson ''string''),
          (''phone_number'', bson ''string'')]),
      (''personal_details'', details
         [(''first_name'', bson ''string''), (''last_name'', bson ''string''),
          (''phone_number'', bson ''string''), (''address'', bson ''string'')]),
      (''agent_details'', details
         [(''agent_name'', bson ''string''), (''agent_id'', bson ''string''),
          (''area'', bson ''string''), (''role'', bson ''string''),
          (''email'', bson ''string''), (''phone'', bson ''string'')])]"

definition records_validator :: json where
  "records_validator = json_schema [''user_id'', ''type'', ''name'', ''amount_owed'']
     [(''user_id'', bson ''string''),
      (''type'', enum [''debtor'', ''creditor'']),
      (''name'', bson ''string''),
      (''contact'', bson_or_null ''string''),
      (''amount_owed'', bson_min0 ''number''),
      (''description'', bson_or_null ''string''),
      (''reminder_count'', bson_min0 ''int''),
      (''created_at'', bson ''date''),
      (''updated_at'', bson_or_null ''date'')]"

definition cashflows_validator :: json where
  "cashflows_validator = json_schema [''user_id'', ''type'', ''party_name'', ''amount'']
     [(''user_id'', bson ''string''),
      (''type'', enum [''receipt'', ''payment'']),
      (''party_name'', bson ''string''),
      (''amount'', bson_min0 ''number''),
      (''method'', bson_or_null ''string''),
      (''category'', bson_or_null ''string''),
      (''created_at'', bson ''date''),
      (''updated_at'', bson_or_null ''date'')]"

definition inventory_validator :: json where
  "inventory_validator =
     json_schema [''user_id'', ''item_name'', ''qty'', ''unit'', ''buying_price'', ''selling_price'']
     [(''user_id'', bson ''string''),
      (''item_name'', bson ''string''),
      (''qty'', bson_min0 ''int''),
      (''unit'', bson ''string''),
      (''buying_price'', bson_min0 ''number''),
      (''selling_price'', bson_min0 ''number''),
      (''threshold'', bson_min0 ''int''),
      (''created_at'', bson ''date''),
      (''updated_at'', bson_or_null ''date'')]"

definition coin_transactions_validator :: json where
  "coin_transactions_validator = json_schema [''user_id'', ''amount'', ''type'', ''date'']
     [(''user_id'', bson ''string''),
      (''amount'', bson ''int''),
      (''type'', enum [''credit'', ''spend'', ''purchase'', ''admin_credit'']),
      (''ref'', bson_or_null ''string''),
      (''date'', bson ''date''),
      (''facilitated_by_agent'', bson_or_null ''string''),
      (''payment_method'', bson_or_null ''string''),
      (''cash_amount'', bson_or_null ''number''),
      (''notes'', bson_or_null ''string'')]"

definition audit_logs_validator :: json where
  "audit_logs_validator = json_schema [''admin_id'', ''action'', ''timestamp'']
     [(''admin_id'', bson ''string''),
      (''action'', bson ''string''),
      (''details'', bson_or_null ''object''),
      (''timestamp'', bson ''date'')]"

record config =
  validator :: json
  indexes :: "index_doc list"

text \<open>The dict \<open>collection_schemas\<close>, in the order it is written (the order \<open>items()\<close> yields).\<close>

definition collection_schemas :: "(string \<times> config) list" where
  "collection_schemas =
     [(''users'', \<lparr>validator = users_validator, indexes =
         [\<lparr>key = [(''email'', ASCENDING)], others = [(''unique'', VBool True)]\<rparr>,
          \<lparr>key = [(''reset_token'', ASCENDING)], others = [(''sparse'', VBool True)]\<rparr>,
          \<lparr>key = [(''role'', ASCENDING)], others = []\<rparr>]\<rparr>),
      (''records'', \<lparr>validator = records_validator, indexes =
         [\<lparr>key = [(''user_id'', ASCENDING), (''type'', ASCENDING)], others = []\<rparr>,
          \<lparr>key = [(''created_at'', DESCENDING)], others = []\<rparr>]\<rparr>),
      (''cashflows'', \<lparr>validator = cashflows_validator, indexes =
         [\<lparr>key = [(''user_id'', ASCENDING), (''type'', ASCENDING)], others = []\<rparr>,
          \<lparr>key = [(''created_at'', DESCENDING)], others = []\<rparr>]\<rparr>),
      (''inventory'', \<lparr>validator = inventory_validator, indexes =
         [\<lparr>key = [(''user_id'', ASCENDING)], others = []\<rparr>,
          \<lparr>key = [(''item_name'', ASCENDING)], others = []\<rparr>]\<rparr>),
      (''coin_transactions'', \<lparr>validator = coin_transactions_validator, indexes =
         [\<lparr>key = [(''user_id'', ASCENDING)], others = []\<rparr>,
          \<lparr>key = [(''date'', DESCENDING)], others = []\<rparr>]\<rparr>),
      (''audit_logs'', \<lparr>validator = audit_logs_validator, indexes =
         [\<lparr>key = [(''admin_id'', ASCENDING)], others = []\<rparr>,
          \<lparr>key = [(''timestamp'', DESCENDING)], others = []\<rparr>]\<rparr>)]"

section \<open>initialize_database: collections and indexes\<close>

text \<open>\<open>options = {k: v for k, v in index.items() if k != 'key'}\<close>.\<close>

definition declared_options :: "index_doc \<Rightarrow> dict" where
  "declared_options index = filter (\<lambda>(k, v). k \<noteq> ''key'') (others index)"

text \<open>
  The inner loop over \<open>existing_indexes.items()\<close>: the first live index whose key equals
  the declared key tuple decides (\<open>break\<close>), and \<open>index_exists\<close> is set only when its
  options, without \<open>key\<close>, \<open>v\<close> and \<open>ns\<close>, equal the declared ones. The name of the
  live index is bound and never read.
\<close>

fun index_exists :: "(string \<times> index_doc) list \<Rightarrow> index_keys \<Rightarrow> dict \<Rightarrow> bool" where
  "index_exists [] index_key_tuple options = False"
| "index_exists ((existing_index_name, existing_index_info) # rest) index_key_tuple options =
     (if key existing_index_info = index_key_tuple then
        (let existing_options =
               filter (\<lambda>(k, v). k \<notin> set [''key'', ''v'', ''ns'']) (others existing_index_info)
         in dict_eq existing_options options)
      else index_exists rest index_key_tuple options)"

text \<open>
  \<open>for index in config.get('indexes', [])\<close>, against the \<open>existing_indexes\<close> read once
  before the loop. The source logs "index already exists" inside the inner loop, right
  before its \<open>break\<close>; with the inner loop a pure function the entry is written here.
\<close>

fun reconcile_indexes ::
  "string \<Rightarrow> (string \<times> index_doc) list \<Rightarrow> index_doc list \<Rightarrow> unit action" where
  "reconcile_indexes collection_name existing_indexes [] = return ()"
| "reconcile_indexes collection_name existing_indexes (index # rest) =
     (let keys = key index; options = declared_options index
      in bind (if index_exists existing_indexes keys options
               then logger INFO (IndexAlreadyExists collection_name keys options)
               else bind (create_index collection_name keys options)
                      (\<lambda>_. logger INFO (IndexCreated collection_name keys options)))
           (\<lambda>_. reconcile_indexes collection_name existing_indexes rest))"

text \<open>\<open>for collection_name, config in collection_schemas.items()\<close>.\<close>

fun reconcile_collections :: "string list \<Rightarrow> (string \<times> config) list \<Rightarrow> unit action" where
  "reconcile_collections collections [] = return ()"
| "reconcile_collections collections ((collection_name, config) # rest) =
     bind (if collection_name \<notin> set collections
           then bind (create_collection collection_name (validator config))
                  (\<lambda>_. logger INFO (CollectionCreated collection_name))
           else return ())
       (\<lambda>_. bind (index_information collection_name)
          (\<lambda>existing_indexes. bind (reconcile_indexes collection_name existing_indexes (indexes config))
             (\<lambda>_. reconcile_collections collections rest)))"

section \<open>initialize_database: reference data\<close>

definition SAMPLE_COURSES :: "doc list" where
  "SAMPLE_COURSES =
     [[(''id'', JStr ''budgeting_learning_101''),
       (''title_key'', JStr ''learning_hub_course_budgeting101_title''),
       (''title_en'', JStr ''Budgeting Learning 101''),
       (''title_ha'', JStr ''Tsarin Kudi 101''),
       (''description_en'', JStr ''Learn the basics of budgeting.''),
       (''description_ha'', JStr ''Koyon asalin tsarin kudi.''),
       (''is_premium'', JBool False)],
      [(''id'', JStr ''financial_quiz''),
       (''title_key'', JStr ''learning_hub_course_financial_quiz_title''),
       (''title_en'', JStr ''Financial Quiz''),
       (''title_ha'', JStr ''Jarabawar Kudi''),
       (''description_en'', JStr ''Test your financial knowledge.''),
       (''description_ha'', JStr ''Gwada ilimin ku na kudi.''),
       (''is_premium'', JBool False)],
      [(''id'', JStr ''savings_basics''),
       (''title_key'', JStr ''learning_hub_course_savings_basics_title''),
       (''title_en'', JStr ''Savings Basics''),
       (''title_ha'', JStr ''Asalin Tattara Kudi''),
       (''description_en'', JStr ''Understand how to save effectively.''),
       (''description_ha'', JStr ''Fahimci yadda ake tattara kudi yadda ya kamata.''),
       (''is_premium'', JBool False)]]"

text \<open>
  \<open>trans\<close> comes from the module \<open>translations\<close>; it is the parameter \<open>trans'\<close>
  here, applied to the message key and the default text.
\<close>

definition sample_rates :: "(string \<Rightarrow> string \<Rightarrow> string) \<Rightarrow> doc list" where
  "sample_rates trans' =
     [[(''role'', JStr ''personal''), (''min_income'', JInt 0), (''max_income'', JInt 100000),
       (''rate'', JDec 1 1),
       (''description'', JStr (trans' ''tax_rate_personal_description''
                                 ''10% tax for income up to 100,000''))],
      [(''role'', JStr ''trader''), (''min_income'', JInt 0), (''max_income'', JInt 500000),
       (''rate'', JDec 15 2),
       (''description'', JStr (trans' ''tax_rate_trader_description''
                                 ''15% tax for turnover up to 500,000''))]]"

definition sample_locations :: "doc list" where
  "sample_locations =
     [[(''name'', JStr ''Gombe State IRS Office''),
       (''address'', JStr ''123 Tax Street, Gombe''),
       (''contact'', JStr ''+234 123 456 7890''),
       (''coordinates'', JObj [(''lat'', JDec 102896 4), (''lng'', JDec 111673 4)])]]"

text \<open>\<open>for course in SAMPLE_COURSES: courses_collection.insert_one(course)\<close>.\<close>

fun insert_each :: "string \<Rightarrow> doc list \<Rightarrow> unit action" where
  "insert_each name [] = return ()"
| "insert_each name (course # rest) = bind (insert_one name course) (\<lambda>_. insert_each name rest)"

definition set_config_COURSES :: "doc list \<Rightarrow> unit action" where
  "set_config_COURSES ds w = (Inr (), w\<lparr>config_COURSES := ds\<rparr>)"

definition seed_courses :: "unit action" where
  "seed_courses =
     bind (count_documents ''courses'')
       (\<lambda>n. bind (if n = 0
                   then bind (insert_each ''courses'' SAMPLE_COURSES)
                          (\<lambda>_. logger INFO CoursesInitialized)
                   else return ())
          (\<lambda>_. bind (find_all ''courses'')
             (\<lambda>found. set_config_COURSES (map (filter (\<lambda>(k, v). k \<noteq> ''_id'')) found))))"

definition seed_tax_rates :: "(string \<Rightarrow> string \<Rightarrow> string) \<Rightarrow> unit action" where
  "seed_tax_rates trans' =
     bind (count_documents ''tax_rates'')
       (\<lambda>n. if n = 0
             then bind (insert_many ''tax_rates'' (sample_rates trans'))
                    (\<lambda>_. logger INFO TaxRatesInitialized)
             else return ())"

definition seed_payment_locations :: "unit action" where
  "seed_payment_locations =
     bind (count_documents ''payment_locations'')
       (\<lambda>n. if n = 0
             then bind (insert_many ''payment_locations'' sample_locations)
                    (\<lambda>_. logger INFO PaymentLocationsInitialized)
             else return ())"

section \<open>initialize_database\<close>

text \<open>The body of the \<open>try\<close> block.\<close>

definition reconcile_and_seed :: "(string \<Rightarrow> string \<Rightarrow> string) \<Rightarrow> unit action" where
  "reconcile_and_seed trans' =
     bind get_db
       (\<lambda>_. bind (logger INFO MongoDBDatabase)
          (\<lambda>_. bind list_collection_names
             (\<lambda>collections. bind (reconcile_collections collections collection_schemas)
                (\<lambda>_. bind seed_courses
                   (\<lambda>_. bind (seed_tax_rates trans')
                      (\<lambda>_. seed_payment_locations))))))"

text \<open>
  The retry loop stands outside the \<open>try\<close>; what the block raises is logged and raised
  again (\<open>except Exception as e: logger.error(...); raise\<close>).
\<close>

definition initialize_database :: "(string \<Rightarrow> string \<Rightarrow> string) \<Rightarrow> unit action" where
  "initialize_database trans' =
     bind (retry_loop [0..<max_retries])
       (\<lambda>_. on_exception (reconcile_and_seed trans')
          (\<lambda>e. bind (logger ERROR (DatabaseInitializationFailed e)) (\<lambda>_. raise e)))"

section \<open>The User class\<close>

record user =
  u_id :: json
  u_email :: json
  u_username :: json
  u_role :: json
  u_display_name :: json
  u_is_admin :: json
  u_setup_complete :: json
  u_coin_balance :: json
  u_language :: json
  u_dark_mode :: json

text \<open>Python's truth value, as \<open>or\<close> and \<open>if\<close> test it.\<close>

fun truthy :: "json \<Rightarrow> bool" where
  "truthy JNull = False"
| "truthy (JBool b) = b"
| "truthy (JInt i) = (i \<noteq> 0)"
| "truthy (JDec m e) = (m \<noteq> 0)"
| "truthy (JStr s) = (s \<noteq> [])"
| "truthy (JDate t) = True"
| "truthy (JList xs) = (xs \<noteq> [])"
| "truthy (JObj kvs) = (kvs \<noteq> [])"

text \<open>\<open>s.split('@')[0]\<close>: the text before the first \<open>@\<close>, all of \<open>s\<close> when it has none.\<close>

definition before_at :: "string \<Rightarrow> string" where
  "before_at s = takeWhile (\<lambda>c. c \<noteq> CHR ''@'') s"

text \<open>
  \<open>str.lower()\<close> on the letters \<open>A\<close> to \<open>Z\<close>; every other character is kept. (The
  validator of \<open>users\<close> admits ASCII addresses only.)
\<close>

definition lower_char :: "char \<Rightarrow> char" where
  "lower_char c =
     (let n = (of_char c :: nat) in if 65 \<le> n \<and> n \<le> 90 then char_of (n + 32) else c)"

definition lower :: "string \<Rightarrow> string" where
  "lower s = map lower_char s"

text \<open>
  \<open>User.__init__(id, email, display_name, role, username, is_admin, setup_complete,
  coin_balance, language, dark_mode)\<close>; \<open>email.split\<close> is reached only when \<open>username\<close>
  and \<open>display_name\<close> are both falsy, and raises on a value that is not a string.
\<close>

definition User ::
  "json \<Rightarrow> json \<Rightarrow> json \<Rightarrow> json \<Rightarrow> json \<Rightarrow> json \<Rightarrow> json \<Rightarrow> json \<Rightarrow> json \<Rightarrow> json \<Rightarrow> error + user" where
  "User id' email display_name role username is_admin setup_complete coin_balance language dark_mode =
     (case (if truthy username then Inr username
            else if truthy display_name then Inr display_name
            else (case email of JStr s \<Rightarrow> Inr (JStr (before_at s)) | _ \<Rightarrow> Inl AttributeError)) of
        Inl e \<Rightarrow> Inl e
      | Inr self_username \<Rightarrow>
          Inr \<lparr>u_id = id', u_email = email, u_username = self_username, u_role = role,
               u_display_name = (if truthy display_name then display_name else self_username),
               u_is_admin = is_admin, u_setup_complete = setup_complete,
               u_coin_balance = coin_balance, u_language = language, u_dark_mode = dark_mode\<rparr>)"

section \<open>create_user and get_user_by_email\<close>

text \<open>\<open>d.get(k, default)\<close> and \<open>d[k]\<close>.\<close>

definition get :: "doc \<Rightarrow> string \<Rightarrow> json \<Rightarrow> json" where
  "get d k default' = (case map_of d k of None \<Rightarrow> default' | Some v \<Rightarrow> v)"

definition item :: "doc \<Rightarrow> string \<Rightarrow> error + json" where
  "item d k = (case map_of d k of None \<Rightarrow> Inl KeyError | Some v \<Rightarrow> Inr v)"

definition lift :: "error + 'a \<Rightarrow> 'a action" where
  "lift r w = (r, w)"

definition str_lower :: "json \<Rightarrow> error + string" where
  "str_lower v = (case v of JStr s \<Rightarrow> Inr (lower s) | _ \<Rightarrow> Inl AttributeError)"

definition str_before_at :: "json \<Rightarrow> error + string" where
  "str_before_at v = (case v of JStr s \<Rightarrow> Inr (before_at s) | _ \<Rightarrow> Inl AttributeError)"

text \<open>
  The body of \<open>create_user\<close>'s \<open>try\<close>. \<open>generate_password_hash\<close> is werkzeug's (a
  parameter, \<open>hash\<close>), \<open>utcnow\<close> the clock. The default of \<open>get('username', ...)\<close> is
  evaluated first, so a missing \<open>email\<close> raises even when \<open>username\<close> is given.
\<close>

definition create_user_body :: "(string \<Rightarrow> string) \<Rightarrow> int \<Rightarrow> doc \<Rightarrow> user action" where
  "create_user_body hash utcnow user_data =
     bind (lift (item user_data ''email''))
       (\<lambda>email. bind (lift (str_before_at email))
          (\<lambda>prefix. bind (lift (str_lower (get user_data ''username'' (JStr prefix))))
             (\<lambda>user_id. bind (case map_of user_data ''password'' of
                                 None \<Rightarrow> lift (item user_data ''password_hash'')
                               | Some (JStr p) \<Rightarrow> return (JStr (hash p))
                               | Some _ \<Rightarrow> raise AttributeError)
                (\<lambda>password_hash. bind (lift (str_lower email))
                   (\<lambda>email_lower.
                      (let user_doc =
                             [(''_id'', JStr user_id),
                              (''email'', JStr email_lower),
                              (''password'', password_hash),
                              (''role'', get user_data ''role'' (JStr ''personal'')),
                              (''display_name'', get user_data ''display_name'' (JStr user_id)),
                              (''is_admin'', get user_data ''is_admin'' (JBool False)),
                              (''setup_complete'', get user_data ''setup_complete'' (JBool False)),
                              (''coin_balance'', get user_data ''coin_balance'' (JInt 10)),
                              (''language'', get user_data ''lang'' (JStr ''en'')),
                              (''dark_mode'', get user_data ''dark_mode'' (JBool False)),
                              (''created_at'', get user_data ''created_at'' (JDate utcnow)),
                              (''business_details'', get user_data ''business_details'' JNull),
                              (''personal_details'', get user_data ''personal_details'' JNull),
                              (''agent_details'', get user_data ''agent_details'' JNull)]
                       in bind (insert_one ''users'' user_doc)
                            (\<lambda>_. bind (logger INFO (UserCreated user_id))
                               (\<lambda>_. lift (User (JStr user_id) (get user_doc ''email'' JNull)
                                            (get user_doc ''display_name'' JNull)
                                            (get user_doc ''role'' JNull)
                                            (JStr user_id)
                                            (get user_doc ''is_admin'' JNull)
                                            (get user_doc ''setup_complete'' JNull)
                                            (get user_doc ''coin_balance'' JNull)
                                            (get user_doc ''language'' JNull)
                                            (get user_doc ''dark_mode'' JNull))))))))))"

text \<open>
  \<open>except DuplicateKeyError\<close> logs and raises \<open>ValueError\<close>; \<open>except Exception\<close> logs and
  raises the exception again.
\<close>

definition create_user :: "(string \<Rightarrow> string) \<Rightarrow> int \<Rightarrow> doc \<Rightarrow> user action" where
  "create_user hash utcnow user_data =
     on_exception (create_user_body hash utcnow user_data)
       (\<lambda>e. if e = DuplicateKeyError
             then bind (logger ERROR (UserCreationDuplicate e)) (\<lambda>_. raise ValueError)
             else bind (logger ERROR (UserCreationError e)) (\<lambda>_. raise e))"

definition get_user_by_email :: "string \<Rightarrow> user option action" where
  "get_user_by_email email =
     on_exception
       (bind (find_one ''users'' ''email'' (JStr (lower email)))
          (\<lambda>found. case found of
                      None \<Rightarrow> return None
                    | Some user_doc \<Rightarrow>
                        if user_doc = [] then return None
                        else bind (lift (item user_doc ''_id''))
                          (\<lambda>id'. bind (lift (item user_doc ''email''))
                             (\<lambda>email'. bind (lift (User id' email'
                                                    (get user_doc ''display_name'' JNull)
                                                    (get user_doc ''role'' (JStr ''personal''))
                                                    id'
                                                    (get user_doc ''is_admin'' (JBool False))
                                                    (get user_doc ''setup_complete'' (JBool False))
                                                    (get user_doc ''coin_balance'' (JInt 0))
                                                    (get user_doc ''language'' (JStr ''en''))
                                                    (get user_doc ''dark_mode'' (JBool False))))
                                (\<lambda>u. return (Some u))))))
       (\<lambda>e. bind (logger ERROR (UserFetchError email e)) (\<lambda>_. raise e))"

section \<open>log_tool_usage\<close>



section \<open>Reading a trace\<close>

text \<open>
  The collections and the indexes a trace created (the calls that returned), and what the
  schema declares: one \<open>(collection, keys, options)\<close> triple per declared index, the
  calls and log entries of a reconciliation that has everything to create, and the store
  it leaves behind.
\<close>

fun created_collections :: "(call \<times> error option) list \<Rightarrow> string list" where
  "created_collections [] = []"
| "created_collections ((CreateCollection name v, None) # cs) = name # created_collections cs"
| "created_collections (c # cs) = created_collections cs"

fun created_indexes :: "(call \<times> error option) list \<Rightarrow> (string \<times> index_keys \<times> dict) list" where
  "created_indexes [] = []"
| "created_indexes ((CreateIndex name keys options, None) # cs) =
     (name, keys, options) # created_indexes cs"
| "created_indexes (c # cs) = created_indexes cs"

definition declared_indexes :: "(string \<times> config) list \<Rightarrow> (string \<times> index_keys \<times> dict) list" where
  "declared_indexes schemas =
     concat (map (\<lambda>(name, config). map (\<lambda>index. (name, key index, declared_options index))
                                       (indexes config)) schemas)"

definition schema_calls :: "(string \<times> config) list \<Rightarrow> call list" where
  "schema_calls schemas =
     concat (map (\<lambda>(name, config).
                    CreateCollection name (validator config) # IndexInformation name #
                    map (\<lambda>index. CreateIndex name (key index) (declared_options index))
                      (indexes config)) schemas)"

definition expected_collection :: "config \<Rightarrow> collection" where
  "expected_collection config =
     \<lparr>coll_validator = validator config,
      coll_indexes = map (\<lambda>index. (index_name (key index),
                                     \<lparr>key = key index,
                                        others = (''v'', VInt 2) # declared_options index\<rparr>))
                       (indexes config),
      coll_docs = []\<rparr>"

definition reconciled_store :: store where
  "reconciled_store =
     \<lparr>names = map fst collection_schemas,
      colls = foldl (\<lambda>f (name, config). f(name := expected_collection config))
                (\<lambda>_. fresh_collection) collection_schemas\<rparr>"

definition holding :: "doc list \<Rightarrow> collection" where
  "holding ds = fresh_collection\<lparr>coll_docs := ds\<rparr>"

definition seeded_store :: "(string \<Rightarrow> string \<Rightarrow> string) \<Rightarrow> store" where
  "seeded_store trans' =
     \<lparr>names = names reconciled_store @ [''courses'', ''tax_rates'', ''payment_locations''],
      colls = (colls reconciled_store)
        (''courses'' := holding SAMPLE_COURSES,
         ''tax_rates'' := holding (sample_rates trans'),
         ''payment_locations'' := holding sample_locations)\<rparr>"

definition schema_logs :: "(string \<times> config) list \<Rightarrow> (level \<times> log_msg) list" where
  "schema_logs schemas =
     concat (map (\<lambda>(name, config).
                    (INFO, CollectionCreated name) #
                    map (\<lambda>index. (INFO, IndexCreated name (key index) (declared_options index)))
                      (indexes config)) schemas)"

text \<open>
  The calls that change the database, a trace none of whose calls raised, and the
  discipline of an action that stops at the first call that raises: the failed call is
  the last of its trace, and its exception is the one the action raises.
\<close>

definition is_write :: "call \<Rightarrow> bool" where
  "is_write c = (case c of
       CreateCollection n v \<Rightarrow> True
     | CreateIndex n k opts \<Rightarrow> True
     | InsertOne n d \<Rightarrow> True
     | InsertMany n ds \<Rightarrow> True
     | _ \<Rightarrow> False)"

definition settled :: "(call \<times> error option) list \<Rightarrow> bool" where
  "settled cs = list_all (\<lambda>c. snd c = None) cs"

definition aborts_at_failure :: "world \<Rightarrow> (error + 'a) \<times> world \<Rightarrow> bool" where
  "aborts_at_failure w rw =
     (\<exists>new. calls (snd rw) = calls w @ new \<and>
        (case fst rw of
           Inr a \<Rightarrow> settled new
         | Inl e \<Rightarrow> \<exists>ok c. new = ok @ [(c, Some e)] \<and> settled ok))"

definition disciplined :: "'a action \<Rightarrow> bool" where
  "disciplined m = (\<forall>w. aborts_at_failure w (m w))"

section \<open>Worlds used as examples\<close>

text \<open>A server that never answers: every call raises \<open>ConnectionFailure\<close>.\<close>

definition always_down :: world where
  "always_down = \<lparr>db = empty_store, calls = [], logs = [], config_COURSES = [],
                   fails = (\<lambda>n. Some ConnectionFailure)\<rparr>"

text \<open>A server that answers every call, over an empty database.\<close>

definition quiet_world :: world where
  "quiet_world = \<lparr>db = empty_store, calls = [], logs = [], config_COURSES = [],
                   fails = (\<lambda>n. None)\<rparr>"


text \<open>
  A database whose \<open>users\<close> collection has an index on \<open>reset_token\<close> that is not
  sparse, where the schema declares \<open>sparse=True\<close>.
\<close>

definition divergent_store :: store where
  "divergent_store =
     \<lparr>names = [''users''],
      colls = (\<lambda>_. fresh_collection)
        (''users'' := fresh_collection\<lparr>coll_indexes :=
           [(''reset_token_1'', \<lparr>key = [(''reset_token'', ASCENDING)],
                                  others = [(''v'', VInt 2), (''sparse'', VBool False)]\<rparr>)]\<rparr>)\<rparr>"

definition divergent_world :: world where
  "divergent_world = \<lparr>db = divergent_store, calls = [], logs = [], config_COURSES = [],
                       fails = (\<lambda>n. None)\<rparr>"

text \<open>
  An empty database whose connection drops at the call in position 30 of the trace: the
  second \<open>insert_one\<close> on \<open>courses\<close>. \<open>half_seeded_world\<close> is the world that run
  leaves behind.
\<close>

definition courses_fault_world :: world where
  "courses_fault_world =
     \<lparr>db = empty_store, calls = [], logs = [], config_COURSES = [],
      fails = (\<lambda>n. if n = 30 then Some ConnectionFailure else None)\<rparr>"

definition half_seeded_world :: world where
  "half_seeded_world =
     \<lparr>db = \<lparr>names = names reconciled_store @ [''courses''],
             colls = (colls reconciled_store)(''courses'' := holding (take 1 SAMPLE_COURSES))\<rparr>,
      calls = map (\<lambda>c. (c, None))
         ([AdminPing, DbPing, ListCollectionNames] @ schema_calls collection_schemas @
          [CountDocuments ''courses'', InsertOne ''courses'' (SAMPLE_COURSES ! 0)]) @
         [(InsertOne ''courses'' (SAMPLE_COURSES ! 1), Some ConnectionFailure)],
      logs = [(INFO, ConnectionEstablished 1 3), (INFO, ConnectedToDatabase),
              (INFO, MongoDBDatabase)] @ schema_logs collection_schemas @
             [(ERROR, DatabaseInitializationFailed ConnectionFailure)],
      config_COURSES = [],
      fails = (\<lambda>n. if n = 30 then Some ConnectionFailure else None)\<rparr>"

section \<open>The retry bound\<close>

lemma range_max_retries: "[0..<max_retries] = [0, 1, 2]"
  by (simp add: max_retries_def upt_rec)

lemma retry_loop_down:
  assumes e0: "fails w (length (calls w)) = Some e0" "is_connection_failure e0"
      and e1: "fails w (Suc (Suc (length (calls w)))) = Some e1" "is_connection_failure e1"
      and e2: "fails w (Suc (Suc (Suc (Suc (length (calls w)))))) = Some e2" "is_connection_failure e2"
  shows "retry_loop [0, 1, 2] w =
           (Inl RuntimeError,
            w\<lparr>calls := calls w @ [(AdminPing, Some e0), (Sleep 1, None), (AdminPing, Some e1),
                                   (Sleep 1, None), (AdminPing, Some e2)],
              logs := logs w @ [(ERROR, FailedToInitializeAttempt 1 3 e0),
                                (ERROR, FailedToInitializeAttempt 2 3 e1),
                                (ERROR, FailedToInitializeAttempt 3 3 e2)]\<rparr>)"
  using assms
  by (simp add: admin_ping_def perform_def logger_def sleep_def max_retries_def retry_delay_def)

text \<open>
  C4. Against a probe that always fails with a connection failure, \<open>initialize_database\<close>
  pings exactly three times (\<open>max_retries\<close>), sleeps one second (\<open>retry_delay\<close>, never
  growing) between consecutive pings, and raises \<open>RuntimeError\<close>; nothing else is called,
  so reconciliation is never entered, and the store is left as it was.
\<close>

theorem C4_retry_bound:
  assumes down: "\<forall>n. \<exists>e. fails w (length (calls w) + n) = Some e \<and> is_connection_failure e"
  shows "\<exists>w'. initialize_database trans' w = (Inl RuntimeError, w') \<and>
           map fst (drop (length (calls w)) (calls w')) =
             [AdminPing, Sleep 1, AdminPing, Sleep 1, AdminPing] \<and>
           db w' = db w"
proof -
  from down [rule_format, of 0] obtain e0 where
    e0: "fails w (length (calls w)) = Some e0" "is_connection_failure e0" by auto
  from down [rule_format, of 2] obtain e1 where
    e1: "fails w (Suc (Suc (length (calls w)))) = Some e1" "is_connection_failure e1" by auto
  from down [rule_format, of 4] obtain e2 where
    e2: "fails w (Suc (Suc (Suc (Suc (length (calls w)))))) = Some e2" "is_connection_failure e2"
    by (auto simp: eval_nat_numeral)
  show ?thesis
    unfolding initialize_database_def bind_def range_max_retries retry_loop_down [OF e0 e1 e2]
    by simp
qed

theorem C4_retry_bound_witness:
  "\<exists>w'. initialize_database (\<lambda>k d. d) always_down = (Inl RuntimeError, w') \<and>
        map fst (calls w') = [AdminPing, Sleep 1, AdminPing, Sleep 1, AdminPing] \<and>
        db w' = empty_store"
  using C4_retry_bound [of always_down "\<lambda>k d. d"]
  by (simp add: always_down_def is_connection_failure_def)

section \<open>Evaluating a run\<close>

lemmas run_defs =
  initialize_database_def reconcile_and_seed_def get_db_def bind_def on_exception_def return_def
  raise_def logger_def sleep_def perform_def admin_ping_def list_collection_names_def
  create_collection_def index_information_def create_index_def count_documents_def
  insert_one_def insert_many_def find_all_def set_config_COURSES_def
  seed_courses_def seed_tax_rates_def seed_payment_locations_def
  store_create_collection_def store_create_index_def store_insert_one_def
  live_def put_def live_options_def declared_options_def dict_eq_def duplicates_def
  fresh_collection_def empty_store_def max_retries_def retry_delay_def Let_def
  collection_schemas_def upt_rec

section \<open>log_tool_usage\<close>


section \<open>Matching a declared index against the live ones\<close>

lemma index_exists_iff:
  "index_exists existing k opts \<longleftrightarrow>
     (\<exists>earlier name info later. existing = earlier @ (name, info) # later \<and>
        (\<forall>e\<in>set earlier. key (snd e) \<noteq> k) \<and> key info = k \<and>
        dict_eq (live_options (others info)) opts)"
proof (induction existing)
  case Nil
  then show ?case by simp
next
  case (Cons a existing)
  obtain n i where a: "a = (n, i)" by (cases a)
  show ?case
  proof (cases "key i = k")
    case True
    show ?thesis
    proof
      assume "index_exists (a # existing) k opts"
      with True a have "dict_eq (live_options (others i)) opts" by (simp add: live_options_def)
      with True a show "\<exists>earlier name info later. a # existing = earlier @ (name, info) # later \<and>
        (\<forall>e\<in>set earlier. key (snd e) \<noteq> k) \<and> key info = k \<and>
        dict_eq (live_options (others info)) opts"
        by (intro exI [of _ "[]"] exI [of _ n] exI [of _ i] exI [of _ existing]) simp
    next
      assume "\<exists>earlier name info later. a # existing = earlier @ (name, info) # later \<and>
        (\<forall>e\<in>set earlier. key (snd e) \<noteq> k) \<and> key info = k \<and>
        dict_eq (live_options (others info)) opts"
      then obtain earlier name info later where
        e: "a # existing = earlier @ (name, info) # later"
        "\<forall>e\<in>set earlier. key (snd e) \<noteq> k" "key info = k"
        "dict_eq (live_options (others info)) opts" by blast
      have "earlier = []"
      proof (cases earlier)
        case (Cons b bs)
        with e(1) have "b = a" by simp
        with Cons e(2) a True show ?thesis by simp
      qed simp
      with e a show "index_exists (a # existing) k opts" by (simp add: live_options_def)
    qed
  next
    case False
    have "index_exists (a # existing) k opts = index_exists existing k opts"
      using a False by simp
    also have "\<dots> = (\<exists>earlier name info later. existing = earlier @ (name, info) # later \<and>
        (\<forall>e\<in>set earlier. key (snd e) \<noteq> k) \<and> key info = k \<and>
        dict_eq (live_options (others info)) opts)" by (rule Cons.IH)
    also have "\<dots> = (\<exists>earlier name info later. a # existing = earlier @ (name, info) # later \<and>
        (\<forall>e\<in>set earlier. key (snd e) \<noteq> k) \<and> key info = k \<and>
        dict_eq (live_options (others info)) opts)" (is "?L = ?R")
    proof
      assume ?L
      then obtain earlier name info later where
        e: "existing = earlier @ (name, info) # later"
        "\<forall>e\<in>set earlier. key (snd e) \<noteq> k" "key info = k"
        "dict_eq (live_options (others info)) opts" by blast
      show ?R
        using e a False
        by (intro exI [of _ "a # earlier"] exI [of _ name] exI [of _ info] exI [of _ later]) simp
    next
      assume ?R
      then obtain earlier name info later where
        e: "a # existing = earlier @ (name, info) # later"
        "\<forall>e\<in>set earlier. key (snd e) \<noteq> k" "key info = k"
        "dict_eq (live_options (others info)) opts" by blast
      from e(1,3) a False obtain bs where bs: "earlier = a # bs" by (cases earlier) auto
      show ?L
        using e bs
        by (intro exI [of _ bs] exI [of _ name] exI [of _ info] exI [of _ later]) simp
    qed
    finally show ?thesis .
  qed
qed


lemma live_put: "live (put n c s) n' = (if n' = n then c else live s n')"
  by (simp add: live_def put_def)

lemma names_put: "set (names (put n c s)) = insert n (set (names s))"
  by (auto simp: put_def)

lemma index_exists_first:
  assumes "\<forall>e\<in>set earlier. key (snd e) \<noteq> k" and "key info = k"
  shows "index_exists (earlier @ (name, info) # later) k opts = dict_eq (live_options (others info)) opts"
  using assms by (induction earlier) (auto simp: live_options_def)

lemma store_create_index_appends:
  assumes "store_create_index c k opts s = (r, s')"
  shows "\<exists>more. coll_indexes (live s' c') = coll_indexes (live s c') @ more"
  using assms
  by (auto simp: store_create_index_def Let_def live_put split: if_splits)



text \<open>
  C1, as the code has it. When the first live index with the declared key tuple has other
  options, \<open>index_exists\<close> stays false and \<open>create_index\<close> is called with the declared
  keys and options; no warning is logged. The source has no call that drops or alters an
  index, and whatever \<open>create_index\<close> answers, the indexes that were live before are
  all still there, unchanged and in the same order.
\<close>

theorem C1_divergent_index_create_attempted:
  assumes "existing = earlier @ (name, info) # later"
      and "\<forall>e\<in>set earlier. key (snd e) \<noteq> key index"
      and "key info = key index"
      and "\<not> dict_eq (live_options (others info)) (declared_options index)"
  shows "\<exists>out w'. reconcile_indexes c existing [index] w =
             ((case out of None \<Rightarrow> Inr () | Some e \<Rightarrow> Inl e), w') \<and>
           calls w' = calls w @ [(CreateIndex c (key index) (declared_options index), out)] \<and>
           logs w' = logs w @
             (case out of None \<Rightarrow> [(INFO, IndexCreated c (key index) (declared_options index))]
                        | Some e \<Rightarrow> []) \<and>
           (\<exists>more. coll_indexes (live (db w') c) = coll_indexes (live (db w) c) @ more)"
proof -
  have ex: "\<not> index_exists existing (key index) (declared_options index)"
    using assms by (simp add: index_exists_first)
  obtain r s' where st: "store_create_index c (key index) (declared_options index) (db w) = (r, s')"
    by (cases "store_create_index c (key index) (declared_options index) (db w)")
  from store_create_index_appends [OF st, of c]
  obtain more where more: "coll_indexes (live s' c) = coll_indexes (live (db w) c) @ more" ..
  show ?thesis
  proof (cases "fails w (length (calls w))")
    case (Some e)
    then show ?thesis
      using ex
      by (intro exI [of _ "Some e"]) (simp add: Let_def bind_def create_index_def perform_def)
  next
    case None
    show ?thesis
    proof (cases r)
      case (Inl e)
      with None st ex more show ?thesis
        by (intro exI [of _ "Some e"]) (simp add: Let_def bind_def create_index_def perform_def)
    next
      case (Inr u)
      with None st ex more show ?thesis
        by (intro exI [of _ "None"])
          (simp add: Let_def bind_def create_index_def perform_def logger_def return_def)
    qed
  qed
qed

theorem C1_divergent_index_create_attempted_witness:
  "\<exists>out w'. reconcile_indexes ''users''
        [(''reset_token_1'', \<lparr>key = [(''reset_token'', ASCENDING)],
                               others = [(''v'', VInt 2), (''sparse'', VBool False)]\<rparr>)]
        [\<lparr>key = [(''reset_token'', ASCENDING)], others = [(''sparse'', VBool True)]\<rparr>]
        divergent_world = ((case out of None \<Rightarrow> Inr () | Some e \<Rightarrow> Inl e), w') \<and>
      calls w' = [(CreateIndex ''users'' [(''reset_token'', ASCENDING)] [(''sparse'', VBool True)], out)]"
  using C1_divergent_index_create_attempted [of
      "[(''reset_token_1'', \<lparr>key = [(''reset_token'', ASCENDING)],
                               others = [(''v'', VInt 2), (''sparse'', VBool False)]\<rparr>)]"
      "[]" "''reset_token_1''"
      "\<lparr>key = [(''reset_token'', ASCENDING)], others = [(''v'', VInt 2), (''sparse'', VBool False)]\<rparr>"
      "[]" "\<lparr>key = [(''reset_token'', ASCENDING)], others = [(''sparse'', VBool True)]\<rparr>"
      "''users''" divergent_world]
  by (simp add: divergent_world_def declared_options_def live_options_def dict_eq_def) blast

text \<open>
  The claim as stated fails on the scenario of the specification: with a live index on
  \<open>reset_token\<close> that is not sparse, \<open>initialize_database\<close> calls \<open>create_index\<close> for
  that key tuple, the server rejects it, and startup aborts.
\<close>

theorem C1_counterexample:
  "fst (initialize_database (\<lambda>k d. d) divergent_world) = Inl OperationFailure \<and>
   calls (snd (initialize_database (\<lambda>k d. d) divergent_world)) =
     [(AdminPing, None), (DbPing, None), (ListCollectionNames, None),
      (IndexInformation ''users'', None),
      (CreateIndex ''users'' [(''email'', ASCENDING)] [(''unique'', VBool True)], None),
      (CreateIndex ''users'' [(''reset_token'', ASCENDING)] [(''sparse'', VBool True)],
       Some OperationFailure)]"
  by (simp add: divergent_world_def divergent_store_def run_defs)

section \<open>Reconciling an empty database\<close>

lemmas seed_defs = SAMPLE_COURSES_def sample_rates_def sample_locations_def

lemma quiet_run:
  "initialize_database trans' quiet_world =
     (Inr (),
      \<lparr>db = seeded_store trans',
       calls = map (\<lambda>c. (c, None))
         ([AdminPing, DbPing, ListCollectionNames] @ schema_calls collection_schemas @
          [CountDocuments ''courses''] @ map (InsertOne ''courses'') SAMPLE_COURSES @
          [Find ''courses'', CountDocuments ''tax_rates'',
           InsertMany ''tax_rates'' (sample_rates trans'),
           CountDocuments ''payment_locations'',
           InsertMany ''payment_locations'' sample_locations]),
       logs = [(INFO, ConnectionEstablished 1 3), (INFO, ConnectedToDatabase),
               (INFO, MongoDBDatabase)] @ schema_logs collection_schemas @
              [(INFO, CoursesInitialized), (INFO, TaxRatesInitialized),
               (INFO, PaymentLocationsInitialized)],
       config_COURSES = SAMPLE_COURSES,
       fails = (\<lambda>n. None)\<rparr>)"
  by (simp add: quiet_world_def run_defs seed_defs schema_calls_def schema_logs_def
      seeded_store_def reconciled_store_def expected_collection_def holding_def direction_name_def)

text \<open>
  C6. On an empty database with a server that answers every call, \<open>initialize_database\<close>
  returns normally; it creates the six declared collections in order, one index per
  declared index (thirteen), and then seeds \<open>courses\<close> with three documents,
  \<open>tax_rates\<close> with two and \<open>payment_locations\<close> with one. The last conjunct is the
  whole trace.
\<close>

theorem C6_empty_database:
  "fst (initialize_database trans' quiet_world) = Inr () \<and>
   created_collections (calls (snd (initialize_database trans' quiet_world))) =
     [''users'', ''records'', ''cashflows'', ''inventory'', ''coin_transactions'', ''audit_logs''] \<and>
   created_indexes (calls (snd (initialize_database trans' quiet_world))) =
     declared_indexes collection_schemas \<and>
   length (declared_indexes collection_schemas) = 13 \<and>
   map (\<lambda>name. length (coll_docs (live (db (snd (initialize_database trans' quiet_world))) name)))
     [''courses'', ''tax_rates'', ''payment_locations''] = [3, 2, 1] \<and>
   map fst (calls (snd (initialize_database trans' quiet_world))) =
     [AdminPing, DbPing, ListCollectionNames] @ schema_calls collection_schemas @
     [CountDocuments ''courses''] @ map (InsertOne ''courses'') SAMPLE_COURSES @
     [Find ''courses'', CountDocuments ''tax_rates'',
      InsertMany ''tax_rates'' (sample_rates trans'),
      CountDocuments ''payment_locations'',
      InsertMany ''payment_locations'' sample_locations]"
proof (intro conjI)
  show "fst (initialize_database trans' quiet_world) = Inr ()"
    by (simp add: quiet_run)
  show "created_collections (calls (snd (initialize_database trans' quiet_world))) =
     [''users'', ''records'', ''cashflows'', ''inventory'', ''coin_transactions'', ''audit_logs'']"
    by (simp add: quiet_run schema_calls_def collection_schemas_def seed_defs)
  show "created_indexes (calls (snd (initialize_database trans' quiet_world))) =
     declared_indexes collection_schemas"
    by (simp add: quiet_run schema_calls_def declared_indexes_def collection_schemas_def seed_defs)
  show "length (declared_indexes collection_schemas) = 13"
    by (simp add: declared_indexes_def collection_schemas_def)
  show "map (\<lambda>name. length (coll_docs (live (db (snd (initialize_database trans' quiet_world))) name)))
     [''courses'', ''tax_rates'', ''payment_locations''] = [3, 2, 1]"
    by (simp add: quiet_run seeded_store_def live_def holding_def seed_defs)
  show "map fst (calls (snd (initialize_database trans' quiet_world))) =
     [AdminPing, DbPing, ListCollectionNames] @ schema_calls collection_schemas @
     [CountDocuments ''courses''] @ map (InsertOne ''courses'') SAMPLE_COURSES @
     [Find ''courses'', CountDocuments ''tax_rates'',
      InsertMany ''tax_rates'' (sample_rates trans'),
      CountDocuments ''payment_locations'',
      InsertMany ''payment_locations'' sample_locations]"
    by (simp add: quiet_run comp_def)
qed

section \<open>Seeding the courses\<close>

lemma faulty_run:
  "initialize_database trans' courses_fault_world = (Inl ConnectionFailure, half_seeded_world)"
  by (simp add: courses_fault_world_def half_seeded_world_def run_defs seed_defs schema_calls_def
      schema_logs_def reconciled_store_def expected_collection_def holding_def direction_name_def)

lemma rerun_after_fault:
  "case initialize_database trans' half_seeded_world of
     (r, w) \<Rightarrow> r = Inr () \<and> coll_docs (live (db w) ''courses'') = take 1 SAMPLE_COURSES \<and>
               config_COURSES w = take 1 SAMPLE_COURSES"
  by (simp add: half_seeded_world_def run_defs seed_defs schema_calls_def
      schema_logs_def reconciled_store_def expected_collection_def holding_def direction_name_def)

text \<open>
  C2. The courses are inserted by one \<open>insert_one\<close> per document. When the connection
  drops at the second of them, startup aborts and \<open>courses\<close> holds the first course
  alone; the next start finds a count that is not zero, inserts nothing, and serves that
  single course as \<open>config['COURSES']\<close>.
\<close>

theorem C2_partial_seed:
  "initialize_database trans' courses_fault_world = (Inl ConnectionFailure, half_seeded_world) \<and>
   coll_docs (live (db half_seeded_world) ''courses'') = take 1 SAMPLE_COURSES \<and>
   length (coll_docs (live (db half_seeded_world) ''courses'')) = 1 \<and>
   fst (initialize_database trans' half_seeded_world) = Inr () \<and>
   coll_docs (live (db (snd (initialize_database trans' half_seeded_world))) ''courses'') =
     take 1 SAMPLE_COURSES"
  using rerun_after_fault [of trans']
  by (simp add: faulty_run case_prod_beta)
    (simp add: half_seeded_world_def live_def holding_def seed_defs)

section \<open>Stopping at the first failure\<close>

lemma settled_simps [simp]:
  "settled []" "settled (a @ b) = (settled a \<and> settled b)" "settled [(c, r)] = (r = None)"
  by (auto simp: settled_def)

lemma disciplined_return: "disciplined (return a)"
  by (simp add: disciplined_def aborts_at_failure_def return_def)

lemma disciplined_logger: "disciplined (logger l msg)"
  by (simp add: disciplined_def aborts_at_failure_def logger_def)

lemma disciplined_set_config: "disciplined (set_config_COURSES ds)"
  by (simp add: disciplined_def aborts_at_failure_def set_config_COURSES_def)

lemma disciplined_perform: "disciplined (perform c f)"
  by (auto simp: disciplined_def aborts_at_failure_def perform_def split: option.splits sum.splits prod.splits)

lemma disciplined_bind:
  assumes m: "disciplined m" and f: "\<And>a. disciplined (f a)"
  shows "disciplined (bind m f)"
  unfolding disciplined_def
proof
  fix w
  obtain r w1 where mw: "m w = (r, w1)" by (cases "m w")
  from m have a1: "aborts_at_failure w (m w)" by (simp add: disciplined_def)
  show "aborts_at_failure w (bind m f w)"
  proof (cases r)
    case (Inl e)
    with mw a1 show ?thesis by (simp add: bind_def aborts_at_failure_def)
  next
    case (Inr a)
    from a1 mw Inr obtain new1 where n1: "calls w1 = calls w @ new1" "settled new1"
      by (auto simp: aborts_at_failure_def)
    from f have a2: "aborts_at_failure w1 (f a w1)" by (simp add: disciplined_def)
    then obtain new2 where n2: "calls (snd (f a w1)) = calls w1 @ new2"
      "case fst (f a w1) of Inr a \<Rightarrow> settled new2
         | Inl e \<Rightarrow> \<exists>ok c. new2 = ok @ [(c, Some e)] \<and> settled ok"
      by (auto simp: aborts_at_failure_def)
    have "bind m f w = f a w1" using mw Inr by (simp add: bind_def)
    moreover have "aborts_at_failure w (f a w1)"
      unfolding aborts_at_failure_def
    proof (intro exI [of _ "new1 @ new2"] conjI)
      show "calls (snd (f a w1)) = calls w @ new1 @ new2" using n1 n2 by simp
      show "case fst (f a w1) of Inl e \<Rightarrow> \<exists>ok c. new1 @ new2 = ok @ [(c, Some e)] \<and> settled ok
            | Inr a \<Rightarrow> settled (new1 @ new2)"
      proof (cases "fst (f a w1)")
        case (Inl e)
        with n2 obtain ok c where "new2 = ok @ [(c, Some e)]" "settled ok" by auto
        with n1 have "new1 @ new2 = (new1 @ ok) @ [(c, Some e)] \<and> settled (new1 @ ok)" by simp
        with Inl show ?thesis by (auto simp del: append_assoc)
      next
        case (Inr b)
        with n1 n2 show ?thesis by simp
      qed
    qed
    ultimately show ?thesis by simp
  qed
qed

text \<open>\<open>except Exception as e: logger.error(...); raise\<close>.\<close>

lemma disciplined_reraise:
  assumes m: "disciplined m"
  shows "disciplined (on_exception m (\<lambda>e. bind (logger l (msg e)) (\<lambda>_. raise e)))"
  unfolding disciplined_def
proof
  fix w
  from m have "aborts_at_failure w (m w)" by (simp add: disciplined_def)
  then show "aborts_at_failure w (on_exception m (\<lambda>e. bind (logger l (msg e)) (\<lambda>_. raise e)) w)"
    by (cases "m w")
      (auto simp: aborts_at_failure_def on_exception_def bind_def logger_def raise_def
        split: sum.splits)
qed

lemma disciplined_if:
  "disciplined m \<Longrightarrow> disciplined m' \<Longrightarrow> disciplined (if b then m else m')"
  by simp

lemmas disciplined_calls =
  disciplined_perform [of "CreateCollection n v" "store_create_collection n v", folded create_collection_def]
  disciplined_perform [of "CreateIndex n k opts" "store_create_index n k opts", folded create_index_def]
  disciplined_perform [of "InsertOne n d" "store_insert_one n d", folded insert_one_def]
  disciplined_perform [of "InsertMany n ds" "store_insert_many n ds", folded insert_many_def]
  for n v k opts d ds

lemma disciplined_reads:
  "disciplined list_collection_names" "disciplined (index_information n)"
  "disciplined (count_documents n)" "disciplined (find_all n)"
  by (simp_all add: list_collection_names_def index_information_def count_documents_def
      find_all_def disciplined_perform)

lemma disciplined_get_db: "disciplined get_db"
  unfolding get_db_def
  by (intro disciplined_reraise disciplined_bind disciplined_perform disciplined_logger)

lemma disciplined_reconcile_indexes: "disciplined (reconcile_indexes c existing idxs)"
  by (induction idxs)
    (auto simp: Let_def intro!: disciplined_bind disciplined_return disciplined_logger
      disciplined_calls)

lemma disciplined_reconcile_collections: "disciplined (reconcile_collections cols schemas)"
proof (induction schemas)
  case Nil
  show ?case by (simp add: disciplined_return)
next
  case (Cons a schemas)
  obtain c cfg where a: "a = (c, cfg)" by (cases a)
  show ?case
    unfolding a reconcile_collections.simps
    by (intro disciplined_bind disciplined_if disciplined_return disciplined_logger
        disciplined_calls disciplined_reads disciplined_reconcile_indexes Cons.IH)
qed

lemma disciplined_insert_each: "disciplined (insert_each n ds)"
  by (induction ds) (auto intro!: disciplined_bind disciplined_return disciplined_calls)

lemma disciplined_seeds:
  "disciplined seed_courses" "disciplined (seed_tax_rates trans')" "disciplined seed_payment_locations"
  unfolding seed_courses_def seed_tax_rates_def seed_payment_locations_def
  by (intro disciplined_bind disciplined_if disciplined_return disciplined_logger
      disciplined_calls disciplined_reads disciplined_insert_each disciplined_set_config)+

lemma disciplined_reconcile_and_seed: "disciplined (reconcile_and_seed trans')"
  unfolding reconcile_and_seed_def
  by (intro disciplined_bind disciplined_get_db disciplined_logger disciplined_reads
      disciplined_reconcile_collections disciplined_seeds)

lemma retry_loop_no_write:
  "retry_loop attempts w = (r, w0) \<Longrightarrow>
     \<exists>pings. calls w0 = calls w @ pings \<and> list_all (\<lambda>c. \<not> is_write (fst c)) pings"
proof (induction attempts arbitrary: w)
  case Nil
  then show ?case by simp
next
  case (Cons attempt rest)
  show ?case
  proof (cases "fails w (length (calls w))")
    case None
    with Cons.prems show ?thesis
      by (auto simp: admin_ping_def perform_def logger_def is_write_def)
  next
    case (Some e)
    show ?thesis
    proof (cases "is_connection_failure e \<and> attempt \<noteq> max_retries - 1")
      case False
      with Some Cons.prems show ?thesis
        by (auto simp: admin_ping_def perform_def logger_def is_write_def split: if_splits)
    next
      case True
      define w3 where "w3 = w\<lparr>logs := logs w @ [(ERROR, FailedToInitializeAttempt (Suc attempt) max_retries e)],
        calls := calls w @ [(AdminPing, Some e), (Sleep retry_delay, None)]\<rparr>"
      from True Some Cons.prems have "retry_loop rest w3 = (r, w0)"
        by (simp add: admin_ping_def perform_def logger_def sleep_def w3_def)
      from Cons.IH [OF this] obtain pings where
        "calls w0 = calls w3 @ pings" "list_all (\<lambda>c. \<not> is_write (fst c)) pings" by blast
      then show ?thesis
        by (intro exI [of _ "[(AdminPing, Some e), (Sleep retry_delay, None)] @ pings"])
          (simp add: w3_def is_write_def)
    qed
  qed
qed

lemma disciplined_Inr:
  assumes "disciplined m" and "m w = (Inr a, w')"
  shows "\<exists>new. calls w' = calls w @ new \<and> settled new"
proof -
  from assms(1) have "aborts_at_failure w (m w)" by (simp add: disciplined_def)
  with assms(2) show ?thesis by (simp add: aborts_at_failure_def)
qed

lemma disciplined_Inl:
  assumes "disciplined m" and "m w = (Inl e, w')"
  shows "\<exists>ok c. calls w' = calls w @ ok @ [(c, Some e)] \<and> settled ok"
proof -
  from assms(1) have "aborts_at_failure w (m w)" by (simp add: disciplined_def)
  with assms(2) show ?thesis by (auto simp: aborts_at_failure_def)
qed

lemma initialize_database_cases:
  assumes "initialize_database trans' w = (r, w')"
  obtains (no_connection) e where "retry_loop [0..<max_retries] w = (Inl e, w')" "r = Inl e"
  | (returned) w0 u where "retry_loop [0..<max_retries] w = (Inr (), w0)"
      "reconcile_and_seed trans' w0 = (Inr u, w')" "r = Inr u"
  | (raised) w0 w1 e where "retry_loop [0..<max_retries] w = (Inr (), w0)"
      "reconcile_and_seed trans' w0 = (Inl e, w1)" "r = Inl e"
      "w' = w1\<lparr>logs := logs w1 @ [(ERROR, DatabaseInitializationFailed e)]\<rparr>"
  using assms
  by (auto simp: initialize_database_def bind_def on_exception_def logger_def raise_def
      split: sum.splits prod.splits)

text \<open>
  C8. When a \<open>create_collection\<close>, \<open>create_index\<close>, \<open>insert_one\<close> or \<open>insert_many\<close>
  call of \<open>initialize_database\<close> raises, whether the connection failed or the server
  rejected the operation, that call is the last one made: nothing is reconciled or seeded
  after it. The exception is logged as the last log entry and raised again, so startup
  aborts; a failed seed insertion is such a call.
\<close>

theorem C8_abort_on_failure:
  assumes run: "initialize_database trans' w = (r, w')"
      and n: "length (calls w) \<le> n" "n < length (calls w')"
      and failed: "calls w' ! n = (c, Some e)"
      and is_w: "is_write c"
  shows "r = Inl e \<and> Suc n = length (calls w') \<and>
         last (logs w') = (ERROR, DatabaseInitializationFailed e)"
proof -
  have in_pings: "False"
    if "calls w0 = calls w @ pings" "list_all (\<lambda>c. \<not> is_write (fst c)) pings"
       "calls w' = calls w0 @ more" "n < length (calls w0)" for w0 pings more
  proof -
    from that(3,4) have same: "calls w' ! n = calls w0 ! n" by (simp add: nth_append)
    from that(1,4) n have k: "calls w0 ! n = pings ! (n - length (calls w))"
      "n - length (calls w) < length pings"
      by (auto simp: nth_append)
    from that(2) k(2) have "\<not> is_write (fst (pings ! (n - length (calls w))))"
      by (simp add: list_all_length)
    moreover from same k(1) failed have "fst (pings ! (n - length (calls w))) = c"
      by (metis fst_conv)
    ultimately show False using is_w by simp
  qed
  from run show ?thesis
  proof (cases rule: initialize_database_cases)
    case (no_connection e0)
    from retry_loop_no_write [OF no_connection(1)] obtain pings where
      "calls w' = calls w @ pings" "list_all (\<lambda>c. \<not> is_write (fst c)) pings" by blast
    with in_pings [of w' pings "[]"] n show ?thesis by simp
  next
    case (returned w0 u)
    from retry_loop_no_write [OF returned(1)] obtain pings where
      p: "calls w0 = calls w @ pings" "list_all (\<lambda>c. \<not> is_write (fst c)) pings" by blast
    from disciplined_Inr [OF disciplined_reconcile_and_seed returned(2)] obtain new where
      new: "calls w' = calls w0 @ new" "settled new" by blast
    show ?thesis
    proof (cases "n < length (calls w0)")
      case True
      with in_pings [of w0 pings new] p new show ?thesis by simp
    next
      case False
      with new n failed have "new ! (n - length (calls w0)) = (c, Some e)"
        "n - length (calls w0) < length new" by (auto simp: nth_append)
      with new(2) show ?thesis by (auto simp: settled_def list_all_length)
    qed
  next
    case (raised w0 w1 e1)
    from retry_loop_no_write [OF raised(1)] obtain pings where
      p: "calls w0 = calls w @ pings" "list_all (\<lambda>c. \<not> is_write (fst c)) pings" by blast
    from disciplined_Inl [OF disciplined_reconcile_and_seed raised(2)] obtain ok c1 where
      new: "calls w1 = calls w0 @ ok @ [(c1, Some e1)]" "settled ok" by blast
    have cw: "calls w' = calls w1" using raised(4) by simp
    show ?thesis
    proof (cases "n < length (calls w0)")
      case True
      with in_pings [of w0 pings "ok @ [(c1, Some e1)]"] p new cw show ?thesis by simp
    next
      case False
      show ?thesis
      proof (cases "n - length (calls w0) < length ok")
        case True
        with False new cw failed have "ok ! (n - length (calls w0)) = (c, Some e)"
          by (simp add: nth_append)
        with True new(2) show ?thesis by (auto simp: settled_def list_all_length)
      next
        case past: False
        with False new cw n have at: "n = length (calls w0) + length ok" by simp
        with new cw failed have "e1 = e" by (simp add: nth_append)
        with at new cw raised show ?thesis by simp
      qed
    qed
  qed
qed

theorem C8_abort_on_failure_witness:
  "fst (initialize_database (\<lambda>k d. d) courses_fault_world) = Inl ConnectionFailure \<and>
   length (calls (snd (initialize_database (\<lambda>k d. d) courses_fault_world))) = 31 \<and>
   calls (snd (initialize_database (\<lambda>k d. d) courses_fault_world)) ! 30 =
     (InsertOne ''courses'' (SAMPLE_COURSES ! 1), Some ConnectionFailure) \<and>
   last (logs (snd (initialize_database (\<lambda>k d. d) courses_fault_world))) =
     (ERROR, DatabaseInitializationFailed ConnectionFailure)"
proof -
  have at: "calls half_seeded_world ! 30 =
      (InsertOne ''courses'' (SAMPLE_COURSES ! 1), Some ConnectionFailure)"
    and len: "length (calls half_seeded_world) = 31"
    by (simp_all add: half_seeded_world_def schema_calls_def collection_schemas_def nth_append)
  have w: "is_write (InsertOne ''courses'' (SAMPLE_COURSES ! 1))"
    by (simp add: is_write_def)
  have start: "length (calls courses_fault_world) \<le> 30"
    by (simp add: courses_fault_world_def)
  have lt: "30 < length (calls half_seeded_world)"
    using len by simp
  from C8_abort_on_failure [OF faulty_run [of "\<lambda>k d. d"] start lt at w] len at
  show ?thesis
    by (simp add: faulty_run)
qed

end
